theory Spec2Isabelle
  imports Complex_Main
begin

unbundle bit_operations_syntax

section \<open>The PCA9685 driver of \<^verbatim>\<open>i2c/pca9685.py\<close>\<close>

text \<open>
  The driver talks to the chip by starting the command-line tools \<^verbatim>\<open>i2cdetect\<close>,
  \<^verbatim>\<open>i2cset\<close> and \<^verbatim>\<open>i2cget\<close> with \<^verbatim>\<open>subprocess.run\<close>. The embedding keeps the
  sequence of commands started and of \<^verbatim>\<open>time.sleep\<close> calls as a trace, and takes the
  behaviour of the tools as a parameter. Python integers are \<^typ>\<open>int\<close>; \<^verbatim>\<open>&\<close>, \<^verbatim>\<open>|\<close>,
  \<^verbatim>\<open>~\<close> and \<^verbatim>\<open>>>\<close> on them are \<open>AND\<close>, \<open>OR\<close>, \<open>NOT\<close> and \<open>drop_bit\<close>.
\<close>

subsection \<open>Registers and bits (class attributes of \<^verbatim>\<open>PCA9685\<close>)\<close>

definition ADDRESS :: int where "ADDRESS = 0x40"
definition MODE1 :: int where "MODE1 = 0x00"
definition MODE2 :: int where "MODE2 = 0x01"
definition SUBADR1 :: int where "SUBADR1 = 0x02"
definition SUBADR2 :: int where "SUBADR2 = 0x03"
definition SUBADR3 :: int where "SUBADR3 = 0x04"
definition PRESCALE :: int where "PRESCALE = 0xFE"
definition LED0_ON_L :: int where "LED0_ON_L = 0x06"
definition LED0_ON_H :: int where "LED0_ON_H = 0x07"
definition LED0_OFF_L :: int where "LED0_OFF_L = 0x08"
definition LED0_OFF_H :: int where "LED0_OFF_H = 0x09"
definition ALL_LED_ON_L :: int where "ALL_LED_ON_L = 0xFA"
definition ALL_LED_ON_H :: int where "ALL_LED_ON_H = 0xFB"
definition ALL_LED_OFF_L :: int where "ALL_LED_OFF_L = 0xFC"
definition ALL_LED_OFF_H :: int where "ALL_LED_OFF_H = 0xFD"

definition RESTART :: int where "RESTART = 0x80"
definition SLEEP :: int where "SLEEP = 0x10"
definition ALLCALL :: int where "ALLCALL = 0x01"
definition INVRT :: int where "INVRT = 0x10"
definition OUTDRV :: int where "OUTDRV = 0x04"

subsection \<open>Exceptions, commands and the tools' replies\<close>

text \<open>
  The exceptions the driver's code can raise. The source defines no exception class of
  its own and has no \<^verbatim>\<open>raise\<close> statement: every exception comes from a builtin.
\<close>

datatype error =
    OSError               \<comment> \<open>\<^verbatim>\<open>subprocess.run\<close> could not start the tool\<close>
  | UnicodeDecodeError    \<comment> \<open>\<^verbatim>\<open>ret.stdout.decode(encoding="utf-8")\<close>\<close>
  | ValueError            \<comment> \<open>\<^verbatim>\<open>int(text, 16)\<close> on text that is no hexadecimal number, and
                              \<^verbatim>\<open>"%d" % bus\<close> on an integer of too many digits\<close>
  | ZeroDivisionError     \<comment> \<open>\<^verbatim>\<open>prescaleval /= float(freq_hz)\<close> with \<^verbatim>\<open>freq_hz == 0\<close>\<close>
  | OverflowError         \<comment> \<open>\<^verbatim>\<open>float(freq_hz)\<close> on an integer beyond the doubles\<close>

text \<open>
  One entry of the trace: a command line handed to \<^verbatim>\<open>subprocess.run\<close> (the arguments
  are bus, address, and then register and value where the command has them), or a call
  of \<^verbatim>\<open>time.sleep\<close> with its duration in milliseconds.
\<close>

datatype event =
    I2cdetect int int           \<comment> \<open>\<^verbatim>\<open>i2cdetect -y bus addr addr\<close>\<close>
  | I2cset_raw int int int      \<comment> \<open>\<^verbatim>\<open>i2cset -y bus addr raw\<close>\<close>
  | I2cset int int int int      \<comment> \<open>\<^verbatim>\<open>i2cset -y bus addr reg regval\<close>\<close>
  | I2cget int int int          \<comment> \<open>\<^verbatim>\<open>i2cget -y bus addr reg\<close>\<close>
  | Sleep_ms nat                \<comment> \<open>\<^verbatim>\<open>time.sleep(ms / 1000)\<close>\<close>

text \<open>
  What a finished tool wrote to its standard output, as far as the driver looks at it:
  bytes that are not UTF-8, text that \<^verbatim>\<open>int(_, 16)\<close> rejects, or text that it reads as
  the given number.
\<close>

datatype stdout = Not_utf8 | Not_hex | Hex int

text \<open>
  The outcome of \<^verbatim>\<open>subprocess.run(cmd, capture_output=True)\<close>: the tool could not be
  started, or it ran and left an exit status and its output. The call has no
  \<^verbatim>\<open>check=True\<close>, so a non-zero exit status raises nothing.
\<close>

datatype reply = Not_started | Completed int stdout

text \<open>
  The tools, the bus and the chip: the reply to a command, given the trace before it.
\<close>

type_synonym transport = "event list \<Rightarrow> event \<Rightarrow> reply"

subsection \<open>Computations that extend the trace and may raise\<close>

type_synonym 'a io = "event list \<Rightarrow> (error + 'a) \<times> event list"

definition return_io :: "'a \<Rightarrow> 'a io" where
  "return_io x = (\<lambda>tr. (Inr x, tr))"

definition raise_io :: "error \<Rightarrow> 'a io" where
  "raise_io e = (\<lambda>tr. (Inl e, tr))"

definition bind_io :: "'a io \<Rightarrow> ('a \<Rightarrow> 'b io) \<Rightarrow> 'b io" where
  "bind_io m f = (\<lambda>tr. case m tr of (Inl e, tr') \<Rightarrow> (Inl e, tr') | (Inr x, tr') \<Rightarrow> f x tr')"

definition then_io :: "'a io \<Rightarrow> 'b io \<Rightarrow> 'b io" where
  "then_io m k = bind_io m (\<lambda>_. k)"

definition lift_io :: "error + 'a \<Rightarrow> 'a io" where
  "lift_io r = (case r of Inl e \<Rightarrow> raise_io e | Inr x \<Rightarrow> return_io x)"

definition subprocess_run :: "transport \<Rightarrow> event \<Rightarrow> (int \<times> stdout) io" where
  "subprocess_run t cmd = (\<lambda>tr.
     case t tr cmd of
       Not_started \<Rightarrow> (Inl OSError, tr @ [cmd])
     | Completed returncode out \<Rightarrow> (Inr (returncode, out), tr @ [cmd]))"

definition sleep :: "nat \<Rightarrow> unit io" where
  "sleep ms = (\<lambda>tr. (Inr (), tr @ [Sleep_ms ms]))"

definition decode :: "stdout \<Rightarrow> error + stdout" where
  "decode out = (case out of Not_utf8 \<Rightarrow> Inl UnicodeDecodeError | _ \<Rightarrow> Inr out)"

definition int16 :: "stdout \<Rightarrow> error + int" where
  "int16 out = (case out of Not_utf8 \<Rightarrow> Inl UnicodeDecodeError
                | Not_hex \<Rightarrow> Inl ValueError
                | Hex v \<Rightarrow> Inr v)"

subsection \<open>Class \<^verbatim>\<open>MCP2221A\<close>\<close>

record controller =
  bus :: int
  addr :: int

text \<open>
  \<^verbatim>\<open>"%d" % n\<close> writes \<open>n\<close> in decimal. Python (from 3.11 on) refuses to convert an
  integer of more than \<^verbatim>\<open>sys.int_max_str_digits\<close> decimal digits, 4300 unless it is
  configured otherwise, and raises \<^verbatim>\<open>ValueError\<close>. The hexadecimal conversions
  \<^verbatim>\<open>"0x%02x" % n\<close> of the address, the registers and the values have no such limit.
\<close>

definition int_max_str_digits :: nat where
  "int_max_str_digits = 4300"

definition format_d :: "int \<Rightarrow> error + unit" where
  "format_d n = (if 10 ^ int_max_str_digits \<le> \<bar>n\<bar> then Inl ValueError else Inr ())"

text \<open>
  \<^verbatim>\<open>detect\<close> builds its command line, with \<^verbatim>\<open>"%d" % self.bus\<close> in it, before it
  runs it.
\<close>

definition detect :: "transport \<Rightarrow> controller \<Rightarrow> unit io" where
  "detect t self =
     bind_io (lift_io (format_d (bus self))) (\<lambda>bus_text.
     bind_io (subprocess_run t (I2cdetect (bus self) (addr self))) (\<lambda>(returncode, out).
     bind_io (lift_io (decode out)) (\<lambda>retval.
     return_io ())))"

definition MCP2221A_init :: "transport \<Rightarrow> int \<Rightarrow> int \<Rightarrow> controller io" where
  "MCP2221A_init t b a =
     (let self = \<lparr>bus = b, addr = a\<rparr> in
      then_io (detect t self) (return_io self))"

subsection \<open>Class \<^verbatim>\<open>PCA9685\<close>: register access\<close>

text \<open>
  These methods are called on an object that its constructor returned, so after
  \<^verbatim>\<open>detect\<close> has written the same \<^verbatim>\<open>self.bus\<close> in decimal: the conversion
  \<^verbatim>\<open>"%d" % self.bus\<close> in their command lines raises nothing.
\<close>

definition write_raw :: "transport \<Rightarrow> controller \<Rightarrow> int \<Rightarrow> unit io" where
  "write_raw t self raw =
     bind_io (subprocess_run t (I2cset_raw (bus self) (addr self) raw)) (\<lambda>(returncode, out).
     bind_io (lift_io (decode out)) (\<lambda>retval.
     return_io ()))"

definition write_reg :: "transport \<Rightarrow> controller \<Rightarrow> int \<Rightarrow> int \<Rightarrow> unit io" where
  "write_reg t self reg regval =
     bind_io (subprocess_run t (I2cset (bus self) (addr self) reg regval)) (\<lambda>(returncode, out).
     bind_io (lift_io (decode out)) (\<lambda>retval.
     return_io ()))"

definition read_reg :: "transport \<Rightarrow> controller \<Rightarrow> int \<Rightarrow> int io" where
  "read_reg t self reg =
     bind_io (subprocess_run t (I2cget (bus self) (addr self) reg)) (\<lambda>(returncode, out).
     lift_io (int16 out))"

subsection \<open>Channels\<close>

definition low_byte :: "int \<Rightarrow> int" where
  "low_byte ticks = ticks AND 0xFF"

definition high_byte :: "int \<Rightarrow> int" where
  "high_byte ticks = drop_bit 8 ticks"

definition set_pwm :: "transport \<Rightarrow> controller \<Rightarrow> int \<Rightarrow> int \<Rightarrow> int \<Rightarrow> unit io" where
  "set_pwm t self channel on off =
     then_io (write_reg t self (LED0_ON_L + 4 * channel) (low_byte on))
    (then_io (write_reg t self (LED0_ON_H + 4 * channel) (high_byte on))
    (then_io (write_reg t self (LED0_OFF_L + 4 * channel) (low_byte off))
             (write_reg t self (LED0_OFF_H + 4 * channel) (high_byte off))))"

definition set_all_pwm :: "transport \<Rightarrow> controller \<Rightarrow> int \<Rightarrow> int \<Rightarrow> unit io" where
  "set_all_pwm t self on off =
     then_io (write_reg t self ALL_LED_ON_L (low_byte on))
    (then_io (write_reg t self ALL_LED_ON_H (high_byte on))
    (then_io (write_reg t self ALL_LED_OFF_L (low_byte off))
             (write_reg t self ALL_LED_OFF_H (high_byte off))))"

definition software_reset :: "transport \<Rightarrow> controller \<Rightarrow> unit io" where
  "software_reset t self = write_raw t self 0x06"

subsection \<open>Construction\<close>

definition PCA9685_init :: "transport \<Rightarrow> int \<Rightarrow> int \<Rightarrow> controller io" where
  "PCA9685_init t b a =
     bind_io (MCP2221A_init t b a) (\<lambda>self.
     then_io (set_all_pwm t self 0 0)
    (then_io (write_reg t self MODE2 OUTDRV)
    (then_io (write_reg t self MODE1 ALLCALL)
    (then_io (sleep 5)
    (bind_io (read_reg t self MODE1) (\<lambda>mode1.
     then_io (write_reg t self MODE1 (mode1 AND NOT SLEEP))
    (then_io (sleep 5)
    (return_io self))))))))"

subsection \<open>The PWM frequency\<close>

text \<open>
  \<^verbatim>\<open>float(freq_hz)\<close> raises \<^verbatim>\<open>OverflowError\<close> on an integer that rounds to
  \<open>2 ^ 1024\<close> or beyond. The arithmetic of \<^verbatim>\<open>set_pwm_freq\<close> on doubles is written
  over the rationals. For an integer frequency this gives the same prescale value. The
  quotient \<open>25000000 / 4096\<close> is a double. The rounding of the division, the
  subtraction and the addition moves the value whose floor is taken by less than
  \<open>(1 + 6104 / \<bar>freq_hz\<bar>) / 2 ^ 50\<close>, and that value stays away from every integer
  by at least \<open>1 / (64 * \<bar>freq_hz\<bar>)\<close> (lemmas \<open>prescale_margin\<close> and
  \<open>prescale_rounding\<close>), which is more when \<open>\<bar>freq_hz\<bar>\<close> is below \<open>10 ^ 12\<close>;
  beyond that the value is within \<open>1 / 10 ^ 8\<close> of \<open>- 1 / 2\<close> and its floor is
  \<open>- 1\<close>.
\<close>

definition float :: "int \<Rightarrow> error + rat" where
  "float n = (if \<bar>n\<bar> \<ge> 2 ^ 1024 - 2 ^ 970 then Inl OverflowError else Inr (of_int n))"

definition prescaleval :: "int \<Rightarrow> error + rat" where
  "prescaleval freq_hz =
     (case float freq_hz of
        Inl e \<Rightarrow> Inl e
      | Inr x \<Rightarrow> if x = 0 then Inl ZeroDivisionError
                 else Inr (25000000 / 4096 / x - 1))"

definition prescale :: "int \<Rightarrow> error + int" where
  "prescale freq_hz =
     (case prescaleval freq_hz of
        Inl e \<Rightarrow> Inl e
      | Inr v \<Rightarrow> Inr \<lfloor>v + 1 / 2\<rfloor>)"

definition set_pwm_freq :: "transport \<Rightarrow> controller \<Rightarrow> int \<Rightarrow> unit io" where
  "set_pwm_freq t self freq_hz =
     bind_io (lift_io (prescale freq_hz)) (\<lambda>prescale.
     bind_io (read_reg t self MODE1) (\<lambda>oldmode.
     (let newmode = (oldmode AND NOT RESTART) OR SLEEP in
      then_io (write_reg t self MODE1 newmode)
     (then_io (write_reg t self PRESCALE prescale)
     (then_io (write_reg t self MODE1 oldmode)
     (then_io (sleep 5)
              (write_reg t self MODE1 (oldmode OR RESTART))))))))"

subsection \<open>Calls made on a constructed object\<close>

text \<open>
  The methods a caller uses on a \<^verbatim>\<open>PCA9685\<close> object. (\<^verbatim>\<open>write_reg\<close> and
  \<^verbatim>\<open>write_raw\<close> are the transport itself: with them a caller writes any register
  at any time.)
\<close>

datatype call =
    Set_pwm_freq int
  | Set_pwm int int int
  | Set_all_pwm int int
  | Software_reset
  | Read_reg int

definition do_call :: "transport \<Rightarrow> controller \<Rightarrow> call \<Rightarrow> unit io" where
  "do_call t self c =
     (case c of
        Set_pwm_freq freq_hz \<Rightarrow> set_pwm_freq t self freq_hz
      | Set_pwm channel on off \<Rightarrow> set_pwm t self channel on off
      | Set_all_pwm on off \<Rightarrow> set_all_pwm t self on off
      | Software_reset \<Rightarrow> software_reset t self
      | Read_reg reg \<Rightarrow> bind_io (read_reg t self reg) (\<lambda>regval. return_io ()))"

text \<open>
  The trace after a list of calls, made one after the other. A caller that catches an
  exception goes on with the next call; one that does not stops there, and its trace is
  the trace of the calls made so far.
\<close>

fun calls :: "transport \<Rightarrow> controller \<Rightarrow> call list \<Rightarrow> event list \<Rightarrow> event list" where
  "calls t self [] tr = tr"
| "calls t self (c # cs) tr = calls t self cs (snd (do_call t self c tr))"

text \<open>
  The calls other than \<^verbatim>\<open>set_pwm\<close> on channel 62, whose register
  \<^verbatim>\<open>LED0_ON_L + 4 * 62\<close> is PRESCALE.
\<close>

fun not_channel_62 :: "call \<Rightarrow> bool" where
  "not_channel_62 (Set_pwm channel on off) = (channel \<noteq> 62)"
| "not_channel_62 _ = True"

subsection \<open>Properties of traces\<close>

text \<open>The values written to a register, and the durations slept, in the order of the trace.\<close>

fun written :: "int \<Rightarrow> event list \<Rightarrow> int list" where
  "written reg [] = []"
| "written reg (I2cset b a r v # tr) = (if r = reg then v # written reg tr else written reg tr)"
| "written reg (_ # tr) = written reg tr"

fun slept :: "event list \<Rightarrow> nat list" where
  "slept [] = []"
| "slept (Sleep_ms ms # tr) = ms # slept tr"
| "slept (_ # tr) = slept tr"

text \<open>
  Whether the latest write to MODE1 in a trace set the SLEEP bit; \<open>s\<close> is the answer for
  a trace without a write to MODE1.
\<close>

fun asleep_after :: "bool \<Rightarrow> event list \<Rightarrow> bool" where
  "asleep_after s [] = s"
| "asleep_after s (I2cset b a r v # tr) =
     (if r = MODE1 then asleep_after (v AND SLEEP \<noteq> 0) tr else asleep_after s tr)"
| "asleep_after s (_ # tr) = asleep_after s tr"

text \<open>
  Every write to PRESCALE in the trace comes when the latest write to MODE1 before it set
  the SLEEP bit.
\<close>

fun prescale_asleep :: "bool \<Rightarrow> event list \<Rightarrow> bool" where
  "prescale_asleep s [] = True"
| "prescale_asleep s (I2cset b a r v # tr) =
     (if r = MODE1 then prescale_asleep (v AND SLEEP \<noteq> 0) tr
      else if r = PRESCALE then s \<and> prescale_asleep s tr
      else prescale_asleep s tr)"
| "prescale_asleep s (_ # tr) = prescale_asleep s tr"

text \<open>
  The exception that the reply to a command raises in the method that ran it:
  \<^verbatim>\<open>read_reg\<close> parses the output, the other methods only decode it. The exit status
  plays no part.
\<close>

definition write_result :: "reply \<Rightarrow> error + unit" where
  "write_result r =
     (case r of
        Not_started \<Rightarrow> Inl OSError
      | Completed returncode out \<Rightarrow>
          (case decode out of Inl e \<Rightarrow> Inl e | Inr retval \<Rightarrow> Inr ()))"

definition read_result :: "reply \<Rightarrow> error + int" where
  "read_result r =
     (case r of
        Not_started \<Rightarrow> Inl OSError
      | Completed returncode out \<Rightarrow> int16 out)"

fun raised :: "transport \<Rightarrow> event list \<Rightarrow> event \<Rightarrow> error option" where
  "raised t tr (Sleep_ms ms) = None"
| "raised t tr (I2cget b a reg) =
     (case read_result (t tr (I2cget b a reg)) of Inl e \<Rightarrow> Some e | Inr v \<Rightarrow> None)"
| "raised t tr cmd =
     (case write_result (t tr cmd) of Inl e \<Rightarrow> Some e | Inr u \<Rightarrow> None)"

text \<open>None of the commands \<open>cmds\<close>, run one after the other after the trace \<open>tr\<close>, raises.\<close>

fun no_raise :: "transport \<Rightarrow> event list \<Rightarrow> event list \<Rightarrow> bool" where
  "no_raise t tr [] = True"
| "no_raise t tr (cmd # cmds) = (raised t tr cmd = None \<and> no_raise t (tr @ [cmd]) cmds)"

text \<open>
  A computation stops at the first command that raises and raises what that command
  raised; when it returns, none of its commands raised.
\<close>

definition stops_at_raise :: "transport \<Rightarrow> 'a io \<Rightarrow> bool" where
  "stops_at_raise t m \<longleftrightarrow>
     (\<forall>tr. \<exists>cmds. snd (m tr) = tr @ cmds \<and>
        (case fst (m tr) of
           Inr x \<Rightarrow> no_raise t tr cmds
         | Inl e \<Rightarrow> cmds \<noteq> [] \<and> no_raise t tr (butlast cmds) \<and>
                    raised t (tr @ butlast cmds) (last cmds) = Some e))"

subsection \<open>Transports used as examples\<close>

text \<open>
  A chip that acknowledges everything: every tool exits with status 0, \<^verbatim>\<open>i2cget\<close>
  prints \<open>mode1\<close> in hexadecimal, the other tools print nothing.
\<close>

definition quiet_chip :: "int \<Rightarrow> transport" where
  "quiet_chip mode1 tr cmd =
     (case cmd of I2cget b a reg \<Rightarrow> Completed 0 (Hex mode1) | _ \<Rightarrow> Completed 0 Not_hex)"

text \<open>
  The same, except that the write to MODE2 fails: \<^verbatim>\<open>i2cset\<close> exits with status 1 and
  prints nothing to its standard output.
\<close>

definition mode2_write_fails :: "int \<Rightarrow> transport" where
  "mode2_write_fails mode1 tr cmd =
     (case cmd of
        I2cset b a reg regval \<Rightarrow> if reg = MODE2 then Completed 1 Not_hex else Completed 0 Not_hex
      | I2cget b a reg \<Rightarrow> Completed 0 (Hex mode1)
      | _ \<Rightarrow> Completed 0 Not_hex)"

text \<open>A system without the \<^verbatim>\<open>i2cset\<close> tool: \<^verbatim>\<open>subprocess.run\<close> cannot start it.\<close>

definition no_i2cset :: transport where
  "no_i2cset tr cmd =
     (case cmd of
        I2cset b a reg regval \<Rightarrow> Not_started
      | I2cset_raw b a raw \<Rightarrow> Not_started
      | I2cget b a reg \<Rightarrow> Completed 0 (Hex 0x11)
      | _ \<Rightarrow> Completed 0 Not_hex)"

section \<open>Basic facts\<close>

lemmas register_defs =
  ADDRESS_def MODE1_def MODE2_def SUBADR1_def SUBADR2_def SUBADR3_def PRESCALE_def
  LED0_ON_L_def LED0_ON_H_def LED0_OFF_L_def LED0_OFF_H_def
  ALL_LED_ON_L_def ALL_LED_ON_H_def ALL_LED_OFF_L_def ALL_LED_OFF_H_def

lemmas bit_defs = RESTART_def SLEEP_def ALLCALL_def INVRT_def OUTDRV_def

lemma write_reg_eq:
  "write_reg t self reg v tr =
     (write_result (t tr (I2cset (bus self) (addr self) reg v)),
      tr @ [I2cset (bus self) (addr self) reg v])"
  by (simp add: write_reg_def write_result_def bind_io_def subprocess_run_def lift_io_def
      return_io_def raise_io_def split: reply.splits sum.splits)

lemma write_raw_eq:
  "write_raw t self raw tr =
     (write_result (t tr (I2cset_raw (bus self) (addr self) raw)),
      tr @ [I2cset_raw (bus self) (addr self) raw])"
  by (simp add: write_raw_def write_result_def bind_io_def subprocess_run_def lift_io_def
      return_io_def raise_io_def split: reply.splits sum.splits)

lemma format_d_0: "format_d 0 = Inr ()"
proof -
  have "(0::int) < 10 ^ int_max_str_digits"
    by (rule zero_less_power) simp
  then have "\<not> 10 ^ int_max_str_digits \<le> \<bar>0::int\<bar>"
    by linarith
  then show ?thesis
    by (simp only: format_d_def if_False)
qed

lemma format_d_Inl:
  "format_d n = Inl e \<longleftrightarrow> 10 ^ int_max_str_digits \<le> \<bar>n\<bar> \<and> e = ValueError"
  by (auto simp add: format_d_def)

lemma format_d_Inr: "format_d n = Inr u \<longleftrightarrow> \<bar>n\<bar> < 10 ^ int_max_str_digits"
  by (auto simp add: format_d_def)

lemma detect_eq:
  "detect t self tr =
     (case format_d (bus self) of
        Inl e \<Rightarrow> (Inl e, tr)
      | Inr u \<Rightarrow> (write_result (t tr (I2cdetect (bus self) (addr self))),
                  tr @ [I2cdetect (bus self) (addr self)]))"
  by (simp add: detect_def write_result_def bind_io_def subprocess_run_def lift_io_def
      return_io_def raise_io_def split: reply.splits sum.splits)

lemma read_reg_eq:
  "read_reg t self reg tr =
     (read_result (t tr (I2cget (bus self) (addr self) reg)),
      tr @ [I2cget (bus self) (addr self) reg])"
  by (simp add: read_reg_def read_result_def bind_io_def subprocess_run_def lift_io_def
      return_io_def raise_io_def split: reply.splits sum.splits)

lemma sleep_eq: "sleep ms tr = (Inr (), tr @ [Sleep_ms ms])"
  by (simp add: sleep_def)

lemma then_io_eq:
  "then_io m k tr = (case fst (m tr) of Inl e \<Rightarrow> (Inl e, snd (m tr)) | Inr x \<Rightarrow> k (snd (m tr)))"
  by (simp add: then_io_def bind_io_def split: prod.splits sum.splits)

lemma bind_io_eq:
  "bind_io m f tr = (case fst (m tr) of Inl e \<Rightarrow> (Inl e, snd (m tr)) | Inr x \<Rightarrow> f x (snd (m tr)))"
  by (simp add: bind_io_def split: prod.splits sum.splits)

lemmas io_eqs = then_io_eq bind_io_eq write_reg_eq write_raw_eq detect_eq read_reg_eq sleep_eq
  return_io_def raise_io_def lift_io_def

lemma set_all_pwm_returns:
  assumes "set_all_pwm t self on off tr = (Inr u, tr')"
  shows "tr' = tr @ [I2cset (bus self) (addr self) ALL_LED_ON_L (on AND 0xFF),
                     I2cset (bus self) (addr self) ALL_LED_ON_H (drop_bit 8 on),
                     I2cset (bus self) (addr self) ALL_LED_OFF_L (off AND 0xFF),
                     I2cset (bus self) (addr self) ALL_LED_OFF_H (drop_bit 8 off)]"
  using assms
  by (simp add: set_all_pwm_def io_eqs low_byte_def high_byte_def split: sum.splits)

lemma set_pwm_returns:
  assumes "set_pwm t self channel on off tr = (Inr u, tr')"
  shows "tr' = tr @ [I2cset (bus self) (addr self) (LED0_ON_L + 4 * channel) (on AND 0xFF),
                     I2cset (bus self) (addr self) (LED0_ON_H + 4 * channel) (drop_bit 8 on),
                     I2cset (bus self) (addr self) (LED0_OFF_L + 4 * channel) (off AND 0xFF),
                     I2cset (bus self) (addr self) (LED0_OFF_H + 4 * channel) (drop_bit 8 off)]"
  using assms
  by (simp add: set_pwm_def io_eqs low_byte_def high_byte_def split: sum.splits)

lemma read_result_Inr:
  "read_result r = Inr m \<longleftrightarrow> (\<exists>rc. r = Completed rc (Hex m))"
  by (auto simp add: read_result_def int16_def split: reply.splits stdout.splits)

lemma float_small: "\<bar>n\<bar> \<le> 2 ^ 64 \<Longrightarrow> float n = Inr (of_int n)"
  by (simp add: float_def)

lemma prescale_pos:
  "0 < f \<Longrightarrow> f \<le> 2 ^ 64 \<Longrightarrow>
   prescale f = Inr \<lfloor>25000000 / 4096 / (of_int f :: rat) - 1 + 1 / 2\<rfloor>"
  by (simp add: prescale_def prescaleval_def float_small)

lemma prescale_60: "prescale 60 = Inr 101"
  by (simp add: prescale_pos floor_unique)

lemma set_pwm_freq_returns:
  assumes "set_pwm_freq t self freq_hz tr = (Inr u, tr')"
  shows "\<exists>p oldmode rc. prescale freq_hz = Inr p \<and>
           t tr (I2cget (bus self) (addr self) MODE1) = Completed rc (Hex oldmode) \<and>
           tr' = tr @ [I2cget (bus self) (addr self) MODE1,
                       I2cset (bus self) (addr self) MODE1 ((oldmode AND NOT RESTART) OR SLEEP),
                       I2cset (bus self) (addr self) PRESCALE p,
                       I2cset (bus self) (addr self) MODE1 oldmode,
                       Sleep_ms 5,
                       I2cset (bus self) (addr self) MODE1 (oldmode OR RESTART)]"
  using assms
  by (simp add: set_pwm_freq_def io_eqs Let_def read_result_Inr split: sum.splits) 

lemma PCA9685_init_returns:
  assumes "PCA9685_init t b a tr = (Inr self, tr')"
  shows "self = \<lparr>bus = b, addr = a\<rparr> \<and>
         (\<exists>mode1 rc.
           t (tr @ [I2cdetect b a,
                    I2cset b a ALL_LED_ON_L 0, I2cset b a ALL_LED_ON_H 0,
                    I2cset b a ALL_LED_OFF_L 0, I2cset b a ALL_LED_OFF_H 0,
                    I2cset b a MODE2 OUTDRV, I2cset b a MODE1 ALLCALL, Sleep_ms 5])
             (I2cget b a MODE1) = Completed rc (Hex mode1) \<and>
           tr' = tr @ [I2cdetect b a,
                       I2cset b a ALL_LED_ON_L 0, I2cset b a ALL_LED_ON_H 0,
                       I2cset b a ALL_LED_OFF_L 0, I2cset b a ALL_LED_OFF_H 0,
                       I2cset b a MODE2 OUTDRV, I2cset b a MODE1 ALLCALL, Sleep_ms 5,
                       I2cget b a MODE1, I2cset b a MODE1 (mode1 AND NOT SLEEP), Sleep_ms 5])"
  using assms
  by (auto simp add: PCA9685_init_def MCP2221A_init_def set_all_pwm_def io_eqs Let_def
      low_byte_def high_byte_def read_result_Inr split: sum.splits)

lemma written_append: "written reg (xs @ ys) = written reg xs @ written reg ys"
  by (induction reg xs rule: written.induct) simp_all

lemma slept_append: "slept (xs @ ys) = slept xs @ slept ys"
  by (induction xs rule: slept.induct) simp_all

lemma asleep_after_append: "asleep_after s (xs @ ys) = asleep_after (asleep_after s xs) ys"
  by (induction s xs rule: asleep_after.induct) simp_all

lemma prescale_asleep_append:
  "prescale_asleep s (xs @ ys) \<longleftrightarrow> prescale_asleep s xs \<and> prescale_asleep (asleep_after s xs) ys"
  by (induction s xs rule: prescale_asleep.induct) auto

lemma bit_16_iff: "bit (16::int) n \<longleftrightarrow> n = 4"
  using bit_exp_iff [where ?'a = int, of 4 n] by simp

lemma sleep_bit_set: "((m AND NOT RESTART) OR SLEEP) AND SLEEP \<noteq> 0"
proof
  assume "((m AND NOT RESTART) OR SLEEP) AND SLEEP = 0"
  moreover have "bit (((m AND NOT RESTART) OR SLEEP) AND SLEEP) 4"
    by (simp add: bit_simps bit_defs)
  ultimately show False by simp
qed

lemma wake_bits:
  "\<not> bit (m AND NOT SLEEP) 4" "n \<noteq> 4 \<Longrightarrow> bit (m AND NOT SLEEP) n = bit m n"
  by (simp_all add: bit_simps SLEEP_def bit_16_iff)

lemma set_pwm_freq_asleep:
  "prescale_asleep s tr \<Longrightarrow> prescale_asleep s (snd (set_pwm_freq t self f tr))"
  by (simp add: set_pwm_freq_def io_eqs Let_def prescale_asleep_append sleep_bit_set
      register_defs split: sum.splits)

lemma set_pwm_registers:
  fixes channel :: int
  shows "6 + 4 * channel = 254 \<longleftrightarrow> channel = 62"
    and "7 + 4 * channel \<noteq> 254"
    and "8 + 4 * channel \<noteq> 254"
    and "9 + 4 * channel \<noteq> 254"
  by presburger+

lemma set_pwm_asleep:
  "channel \<noteq> 62 \<Longrightarrow> prescale_asleep s tr \<Longrightarrow>
   prescale_asleep s (snd (set_pwm t self channel on off tr))"
  by (simp add: set_pwm_def io_eqs prescale_asleep_append register_defs set_pwm_registers
      split: sum.splits)

lemma set_all_pwm_asleep:
  "prescale_asleep s tr \<Longrightarrow> prescale_asleep s (snd (set_all_pwm t self on off tr))"
  by (simp add: set_all_pwm_def io_eqs prescale_asleep_append register_defs split: sum.splits)

lemma do_call_asleep:
  "not_channel_62 c \<Longrightarrow> prescale_asleep s tr \<Longrightarrow> prescale_asleep s (snd (do_call t self c tr))"
  by (cases c)
     (simp_all add: do_call_def set_pwm_freq_asleep set_pwm_asleep set_all_pwm_asleep
        software_reset_def io_eqs prescale_asleep_append split: sum.splits)

lemma calls_asleep:
  "\<forall>c \<in> set cs. not_channel_62 c \<Longrightarrow> prescale_asleep s tr \<Longrightarrow>
   prescale_asleep s (calls t self cs tr)"
  by (induction cs arbitrary: tr) (simp_all add: do_call_asleep)

lemma PCA9685_init_asleep:
  "prescale_asleep s tr \<Longrightarrow> prescale_asleep s (snd (PCA9685_init t b a tr))"
  by (simp add: PCA9685_init_def MCP2221A_init_def set_all_pwm_def io_eqs Let_def
      prescale_asleep_append register_defs split: sum.splits)

lemmas fixture_defs = quiet_chip_def mode2_write_fails_def no_i2cset_def format_d_0
  write_result_def read_result_def decode_def int16_def

lemma init_quiet:
  "PCA9685_init (quiet_chip 0x31) 0 0x40 [] =
     (Inr \<lparr>bus = 0, addr = 0x40\<rparr>,
      [I2cdetect 0 0x40,
       I2cset 0 0x40 0xFA 0, I2cset 0 0x40 0xFB 0, I2cset 0 0x40 0xFC 0, I2cset 0 0x40 0xFD 0,
       I2cset 0 0x40 0x01 0x04, I2cset 0 0x40 0x00 0x01, Sleep_ms 5,
       I2cget 0 0x40 0x00, I2cset 0 0x40 0x00 0x21, Sleep_ms 5])"
  by (simp add: PCA9685_init_def MCP2221A_init_def set_all_pwm_def io_eqs Let_def
      low_byte_def high_byte_def fixture_defs register_defs bit_defs)

lemma freq_quiet:
  "set_pwm_freq (quiet_chip 0x91) \<lparr>bus = 0, addr = 0x40\<rparr> 60 [] =
     (Inr (),
      [I2cget 0 0x40 0x00, I2cset 0 0x40 0x00 0x11, I2cset 0 0x40 0xFE 101,
       I2cset 0 0x40 0x00 0x91, Sleep_ms 5, I2cset 0 0x40 0x00 0x91])"
  by (simp add: set_pwm_freq_def prescale_60 io_eqs Let_def
      fixture_defs register_defs bit_defs)

lemma set_pwm_out_of_range:
  "set_pwm (quiet_chip 0x21) \<lparr>bus = 0, addr = 0x40\<rparr> 16 5000 (- 1) [] =
     (Inr (),
      [I2cset 0 0x40 70 136, I2cset 0 0x40 71 19, I2cset 0 0x40 72 255, I2cset 0 0x40 73 (- 1)])"
  by (simp add: set_pwm_def io_eqs low_byte_def high_byte_def fixture_defs register_defs)

lemma set_pwm_62:
  "set_pwm (quiet_chip 0x21) \<lparr>bus = 0, addr = 0x40\<rparr> 62 1 0 [] =
     (Inr (),
      [I2cset 0 0x40 0xFE 1, I2cset 0 0x40 0xFF 0, I2cset 0 0x40 0x100 0, I2cset 0 0x40 0x101 0])"
  by (simp add: set_pwm_def io_eqs low_byte_def high_byte_def fixture_defs register_defs)

lemma init_mode2_fails:
  "PCA9685_init (mode2_write_fails 0x31) 0 0x40 [] =
     (Inr \<lparr>bus = 0, addr = 0x40\<rparr>,
      [I2cdetect 0 0x40,
       I2cset 0 0x40 0xFA 0, I2cset 0 0x40 0xFB 0, I2cset 0 0x40 0xFC 0, I2cset 0 0x40 0xFD 0,
       I2cset 0 0x40 0x01 0x04, I2cset 0 0x40 0x00 0x01, Sleep_ms 5,
       I2cget 0 0x40 0x00, I2cset 0 0x40 0x00 0x21, Sleep_ms 5])"
  by (simp add: PCA9685_init_def MCP2221A_init_def set_all_pwm_def io_eqs Let_def
      low_byte_def high_byte_def fixture_defs register_defs bit_defs)

lemma init_no_i2cset:
  "PCA9685_init no_i2cset 0 0x40 [] = (Inl OSError, [I2cdetect 0 0x40, I2cset 0 0x40 0xFA 0])"
  by (simp add: PCA9685_init_def MCP2221A_init_def set_all_pwm_def io_eqs Let_def
      low_byte_def high_byte_def fixture_defs register_defs bit_defs)

lemma raised_cases:
  "raised t tr cmd = Some e \<Longrightarrow> e = OSError \<or> e = UnicodeDecodeError \<or> e = ValueError"
  by (cases cmd)
     (auto simp add: write_result_def read_result_def decode_def int16_def
        split: sum.splits reply.splits stdout.splits)

lemma set_pwm_Inl:
  assumes "set_pwm t self channel on off tr = (Inl e, tr')"
  shows "raised t (butlast tr') (last tr') = Some e"
  using assms
  by (auto simp add: set_pwm_def io_eqs butlast_append split: sum.splits)

lemma set_pwm_first:
  "\<exists>rest. snd (set_pwm t self channel on off tr) =
     tr @ I2cset (bus self) (addr self) (LED0_ON_L + 4 * channel) (on AND 0xFF) # rest"
  by (simp add: set_pwm_def io_eqs low_byte_def split: sum.splits)

lemma no_raise_append:
  "no_raise t tr (xs @ ys) \<longleftrightarrow> no_raise t tr xs \<and> no_raise t (tr @ xs) ys"
  by (induction xs arbitrary: tr) auto

lemma stops_return: "stops_at_raise t (return_io x)"
  unfolding stops_at_raise_def
proof
  fix tr
  have "snd (return_io x tr) = tr @ [] \<and>
        (case fst (return_io x tr) of
           Inr x \<Rightarrow> no_raise t tr []
         | Inl e \<Rightarrow> [] \<noteq> [] \<and> no_raise t tr (butlast []) \<and>
                    raised t (tr @ butlast []) (last []) = Some e)"
    by (simp add: return_io_def)
  then show "\<exists>cmds. snd (return_io x tr) = tr @ cmds \<and>
        (case fst (return_io x tr) of
           Inr x \<Rightarrow> no_raise t tr cmds
         | Inl e \<Rightarrow> cmds \<noteq> [] \<and> no_raise t tr (butlast cmds) \<and>
                    raised t (tr @ butlast cmds) (last cmds) = Some e)"
    by blast
qed

lemma stops_single:
  assumes "\<And>tr. m tr = (r tr, tr @ [cmd])"
    and "\<And>tr. case r tr of Inr x \<Rightarrow> raised t tr cmd = None | Inl e \<Rightarrow> raised t tr cmd = Some e"
  shows "stops_at_raise t m"
  unfolding stops_at_raise_def
proof
  fix tr
  have "snd (m tr) = tr @ [cmd] \<and>
        (case fst (m tr) of
           Inr x \<Rightarrow> no_raise t tr [cmd]
         | Inl e \<Rightarrow> [cmd] \<noteq> [] \<and> no_raise t tr (butlast [cmd]) \<and>
                    raised t (tr @ butlast [cmd]) (last [cmd]) = Some e)"
    using assms(2) [of tr] by (simp add: assms(1) split: sum.splits)
  then show "\<exists>cmds. snd (m tr) = tr @ cmds \<and>
        (case fst (m tr) of
           Inr x \<Rightarrow> no_raise t tr cmds
         | Inl e \<Rightarrow> cmds \<noteq> [] \<and> no_raise t tr (butlast cmds) \<and>
                    raised t (tr @ butlast cmds) (last cmds) = Some e)"
    by blast
qed

lemma stops_write_reg: "stops_at_raise t (write_reg t self reg v)"
  by (rule stops_single [where cmd = "I2cset (bus self) (addr self) reg v"
        and r = "\<lambda>tr. write_result (t tr (I2cset (bus self) (addr self) reg v))"])
     (simp_all add: write_reg_eq split: sum.splits)

lemma stops_detect:
  assumes "format_d (bus self) = Inr ()"
  shows "stops_at_raise t (detect t self)"
  by (rule stops_single [where cmd = "I2cdetect (bus self) (addr self)"
        and r = "\<lambda>tr. write_result (t tr (I2cdetect (bus self) (addr self)))"])
     (simp_all add: detect_eq assms split: sum.splits)

lemma stops_read_reg: "stops_at_raise t (read_reg t self reg)"
  by (rule stops_single [where cmd = "I2cget (bus self) (addr self) reg"
        and r = "\<lambda>tr. read_result (t tr (I2cget (bus self) (addr self) reg))"])
     (simp_all add: read_reg_eq split: sum.splits)

lemma stops_sleep: "stops_at_raise t (sleep ms)"
  by (rule stops_single [where cmd = "Sleep_ms ms" and r = "\<lambda>tr. Inr ()"]) (simp_all add: sleep_eq)

lemma stops_bind:
  assumes m: "stops_at_raise t m" and f: "\<And>x. stops_at_raise t (f x)"
  shows "stops_at_raise t (bind_io m f)"
  unfolding stops_at_raise_def
proof
  fix tr
  from m obtain c1 where c1: "snd (m tr) = tr @ c1"
    and r1: "case fst (m tr) of
           Inr x \<Rightarrow> no_raise t tr c1
         | Inl e \<Rightarrow> c1 \<noteq> [] \<and> no_raise t tr (butlast c1) \<and>
                    raised t (tr @ butlast c1) (last c1) = Some e"
    unfolding stops_at_raise_def by blast
  show "\<exists>cmds. snd (bind_io m f tr) = tr @ cmds \<and>
        (case fst (bind_io m f tr) of
           Inr x \<Rightarrow> no_raise t tr cmds
         | Inl e \<Rightarrow> cmds \<noteq> [] \<and> no_raise t tr (butlast cmds) \<and>
                    raised t (tr @ butlast cmds) (last cmds) = Some e)"
  proof (cases "fst (m tr)")
    case (Inl e)
    then have "bind_io m f tr = (Inl e, tr @ c1)"
      using c1 by (simp add: bind_io_eq)
    with r1 Inl show ?thesis by auto
  next
    case (Inr x)
    then have b: "bind_io m f tr = f x (tr @ c1)"
      using c1 by (simp add: bind_io_eq)
    from Inr r1 have n1: "no_raise t tr c1" by simp
    from f [of x] obtain c2 where c2: "snd (f x (tr @ c1)) = (tr @ c1) @ c2"
      and r2: "case fst (f x (tr @ c1)) of
           Inr y \<Rightarrow> no_raise t (tr @ c1) c2
         | Inl e \<Rightarrow> c2 \<noteq> [] \<and> no_raise t (tr @ c1) (butlast c2) \<and>
                    raised t ((tr @ c1) @ butlast c2) (last c2) = Some e"
      unfolding stops_at_raise_def by blast
    have "snd (bind_io m f tr) = tr @ (c1 @ c2)"
      using b c2 by simp
    moreover have "case fst (bind_io m f tr) of
           Inr y \<Rightarrow> no_raise t tr (c1 @ c2)
         | Inl e \<Rightarrow> c1 @ c2 \<noteq> [] \<and> no_raise t tr (butlast (c1 @ c2)) \<and>
                    raised t (tr @ butlast (c1 @ c2)) (last (c1 @ c2)) = Some e"
      using r2 n1 unfolding b
      by (auto simp add: no_raise_append butlast_append split: sum.splits)
    ultimately show ?thesis by blast
  qed
qed

lemma stops_then:
  "stops_at_raise t m \<Longrightarrow> stops_at_raise t k \<Longrightarrow> stops_at_raise t (then_io m k)"
  unfolding then_io_def by (rule stops_bind)

lemma stops_set_all_pwm: "stops_at_raise t (set_all_pwm t self on off)"
  unfolding set_all_pwm_def by (intro stops_then stops_write_reg)

lemma stops_MCP2221A_init:
  assumes "format_d b = Inr ()"
  shows "stops_at_raise t (MCP2221A_init t b a)"
  unfolding MCP2221A_init_def Let_def
  by (intro stops_then stops_detect stops_return) (simp add: assms)

lemma stops_PCA9685_init:
  assumes "format_d b = Inr ()"
  shows "stops_at_raise t (PCA9685_init t b a)"
  unfolding PCA9685_init_def
  by (intro stops_bind stops_then stops_MCP2221A_init [OF assms] stops_set_all_pwm
      stops_write_reg stops_sleep stops_read_reg stops_return)

lemma PCA9685_init_stops:
  assumes "format_d b = Inr ()" and "PCA9685_init t b a [] = (r, tr)"
  shows "case r of
           Inr self \<Rightarrow> no_raise t [] tr
         | Inl e \<Rightarrow> tr \<noteq> [] \<and> no_raise t [] (butlast tr) \<and>
                    raised t (butlast tr) (last tr) = Some e"
  using stops_PCA9685_init [OF assms(1), of t a] assms(2)
  unfolding stops_at_raise_def by (auto dest!: spec [where x = "[]"] split: sum.splits)

lemma PCA9685_init_format:
  assumes "format_d b = Inl e"
  shows "PCA9685_init t b a tr = (Inl e, tr)"
  by (simp add: PCA9685_init_def MCP2221A_init_def Let_def bind_io_eq then_io_eq detect_eq assms)

text \<open>
  The value whose floor \<^verbatim>\<open>set_pwm_freq\<close> takes is never close to an integer, so the
  floor is the same for every value within \<open>1 / (64 * freq_hz)\<close> of it.
\<close>

lemma abs_ge_64:
  fixes N q :: int
  assumes "N = 2048 * q + 64"
  shows "64 \<le> \<bar>N\<bar>"
proof (cases "0 \<le> q")
  case True
  with assms have "64 \<le> N" by linarith
  then show ?thesis by linarith
next
  case False
  then have "q \<le> - 1" by linarith
  with assms have "N \<le> - 1984" by linarith
  then show ?thesis by linarith
qed

lemma prescale_margin:
  fixes f k :: int
  assumes "f \<noteq> 0"
  shows "1 / (64 * \<bar>of_int f\<bar>) \<le> \<bar>25000000 / 4096 / (of_int f :: rat) - 1 + 1 / 2 - of_int k\<bar>"
proof -
  define N :: int where "N = 2048 * (12207 - f * (2 * k + 1)) + 64"
  have N: "64 \<le> \<bar>N\<bar>"
    using N_def by (rule abs_ge_64)
  have f: "(of_int f :: rat) \<noteq> 0"
    using assms by simp
  have Nq: "(of_int N :: rat) = 25000000 - 2048 * of_int f * (2 * of_int k + 1)"
    by (simp add: N_def algebra_simps)
  have "25000000 / 4096 / (of_int f :: rat) - 1 + 1 / 2 - of_int k
      = (25000000 - 2048 * of_int f * (2 * of_int k + 1)) / (4096 * of_int f)"
    using f by (simp add: field_simps)
  then have eq: "25000000 / 4096 / (of_int f :: rat) - 1 + 1 / 2 - of_int k
      = of_int N / (4096 * of_int f)"
    by (simp only: Nq)
  have "(of_int 64 :: rat) \<le> of_int \<bar>N\<bar>"
    using N by (simp only: of_int_le_iff)
  then have n: "(64::rat) \<le> \<bar>of_int N\<bar>"
    by simp
  have pos: "0 < 4096 * \<bar>of_int f :: rat\<bar>"
    using f by simp
  have "1 / (64 * \<bar>of_int f :: rat\<bar>) = 64 / (4096 * \<bar>of_int f\<bar>)"
    by simp
  also have "\<dots> \<le> \<bar>of_int N\<bar> / (4096 * \<bar>of_int f :: rat\<bar>)"
    using n pos by (simp only: divide_le_cancel) simp
  also have "\<dots> = \<bar>of_int N / (4096 * of_int f :: rat)\<bar>"
    by (simp only: abs_divide abs_mult)
  finally show ?thesis
    by (simp only: eq)
qed


lemma prescale_rounding:
  fixes f :: int and d :: rat
  assumes "f \<noteq> 0" and "\<bar>d\<bar> < 1 / (64 * \<bar>of_int f\<bar>)"
  shows "\<lfloor>25000000 / 4096 / of_int f - 1 + 1 / 2 + d\<rfloor>
       = \<lfloor>25000000 / 4096 / (of_int f :: rat) - 1 + 1 / 2\<rfloor>"
proof -
  define v :: rat where "v = 25000000 / 4096 / of_int f - 1 + 1 / 2"
  define k :: int where "k = \<lfloor>v\<rfloor>"
  define m :: rat where "m = 1 / (64 * \<bar>of_int f\<bar>)"
  have lo: "of_int k \<le> v" and hi: "v < of_int k + 1"
    unfolding k_def by linarith+
  have "m \<le> \<bar>v - of_int k\<bar>"
    unfolding m_def v_def by (rule prescale_margin [OF assms(1)])
  with lo have a: "of_int k + m \<le> v" by linarith
  have "m \<le> \<bar>v - of_int (k + 1)\<bar>"
    unfolding m_def v_def by (rule prescale_margin [OF assms(1)])
  with hi have b: "v + m \<le> of_int k + 1" by simp
  have d: "\<bar>d\<bar> < m"
    using assms(2) by (simp only: m_def)
  have "of_int k \<le> v + d" and "v + d < of_int k + 1"
    using a b d by linarith+
  then have "\<lfloor>v + d\<rfloor> = k"
    by (rule floor_unique)
  then show ?thesis
    by (simp only: v_def k_def)
qed

section \<open>The claims\<close>

subsection \<open>C1: the prescale value for 60 Hz\<close>

text \<open>
  C1 (as amended). For a frequency of 60 Hz the prescale computation of \<^verbatim>\<open>set_pwm_freq\<close>
  gives 101, and a call \<^verbatim>\<open>set_pwm_freq(60)\<close> that returns has written exactly one
  value to the PRESCALE register, the value 101.
\<close>

theorem prescale_60_written:
  "prescale 60 = Inr 101 \<and>
   (set_pwm_freq t self 60 tr = (Inr u, tr') \<longrightarrow>
      written PRESCALE tr' = written PRESCALE tr @ [101])"
proof (intro conjI impI)
  show "prescale 60 = Inr 101" by (rule prescale_60)
  assume "set_pwm_freq t self 60 tr = (Inr u, tr')"
  from set_pwm_freq_returns [OF this]
  show "written PRESCALE tr' = written PRESCALE tr @ [101]"
    by (auto simp add: written_append prescale_60 register_defs)
qed

theorem prescale_60_written_witness:
  "set_pwm_freq (quiet_chip 0x91) \<lparr>bus = 0, addr = 0x40\<rparr> 60 [] =
     (Inr (),
      [I2cget 0 0x40 0x00, I2cset 0 0x40 0x00 0x11, I2cset 0 0x40 0xFE 101,
       I2cset 0 0x40 0x00 0x91, Sleep_ms 5, I2cset 0 0x40 0x00 0x91]) \<and>
   written PRESCALE
      [I2cget 0 0x40 0x00, I2cset 0 0x40 0x00 0x11, I2cset 0 0x40 0xFE 101,
       I2cset 0 0x40 0x00 0x91, Sleep_ms 5, I2cset 0 0x40 0x00 0x91] = [101]"
  using prescale_60_written [where t = "quiet_chip 0x91" and self = "\<lparr>bus = 0, addr = 0x40\<rparr>"
      and tr = "[]" and u = "()"] freq_quiet
  by (simp add: register_defs)

text \<open>The value 25 that the claim names is not the one computed.\<close>

theorem prescale_60_counterexample: "prescale 60 \<noteq> Inr 25"
  by (simp add: prescale_60)

subsection \<open>C2: the transactions of \<^verbatim>\<open>set_pwm_freq(60)\<close>\<close>

text \<open>
  C2 (as amended). For every value \<open>oldmode\<close> read from MODE1, a call
  \<^verbatim>\<open>set_pwm_freq(60)\<close> that returns has run exactly one read of MODE1 and then four
  writes, in this order: MODE1 = (oldmode and not RESTART) or SLEEP, PRESCALE = 101,
  MODE1 = oldmode, MODE1 = oldmode or RESTART, with a single sleep of 5 ms, between the
  third and the fourth write, and nothing else.
\<close>

theorem set_pwm_freq_60_trace:
  assumes "set_pwm_freq t self 60 tr = (Inr u, tr')"
  shows "\<exists>oldmode rc.
           t tr (I2cget (bus self) (addr self) MODE1) = Completed rc (Hex oldmode) \<and>
           tr' = tr @ [I2cget (bus self) (addr self) MODE1,
                       I2cset (bus self) (addr self) MODE1 ((oldmode AND NOT RESTART) OR SLEEP),
                       I2cset (bus self) (addr self) PRESCALE 101,
                       I2cset (bus self) (addr self) MODE1 oldmode,
                       Sleep_ms 5,
                       I2cset (bus self) (addr self) MODE1 (oldmode OR RESTART)]"
  using set_pwm_freq_returns [OF assms] by (auto simp add: prescale_60)

theorem set_pwm_freq_60_trace_witness:
  "set_pwm_freq (quiet_chip 0x91) \<lparr>bus = 0, addr = 0x40\<rparr> 60 [] =
     (Inr (),
      [I2cget 0 0x40 0x00, I2cset 0 0x40 0x00 0x11, I2cset 0 0x40 0xFE 101,
       I2cset 0 0x40 0x00 0x91, Sleep_ms 5, I2cset 0 0x40 0x00 0x91]) \<and>
   (\<exists>oldmode rc.
      quiet_chip 0x91 [] (I2cget 0 0x40 MODE1) = Completed rc (Hex oldmode) \<and>
      [I2cget 0 0x40 0x00, I2cset 0 0x40 0x00 0x11, I2cset 0 0x40 0xFE 101,
       I2cset 0 0x40 0x00 0x91, Sleep_ms 5, I2cset 0 0x40 0x00 0x91] =
      [I2cget 0 0x40 MODE1, I2cset 0 0x40 MODE1 ((oldmode AND NOT RESTART) OR SLEEP),
       I2cset 0 0x40 PRESCALE 101, I2cset 0 0x40 MODE1 oldmode, Sleep_ms 5,
       I2cset 0 0x40 MODE1 (oldmode OR RESTART)])"
  using set_pwm_freq_60_trace [OF freq_quiet] freq_quiet
  by (simp add: register_defs bit_defs quiet_chip_def)

text \<open>
  With MODE1 read as \<open>0x91\<close>, the value written to PRESCALE is not 25 and there are not
  two sleeps.
\<close>

theorem set_pwm_freq_60_counterexample:
  "written PRESCALE (snd (set_pwm_freq (quiet_chip 0x91) \<lparr>bus = 0, addr = 0x40\<rparr> 60 [])) \<noteq> [25] \<and>
   length (slept (snd (set_pwm_freq (quiet_chip 0x91) \<lparr>bus = 0, addr = 0x40\<rparr> 60 []))) \<noteq> 2"
  by (simp add: freq_quiet register_defs)

subsection \<open>C6: the power-on sequence\<close>

text \<open>
  C6. A construction that succeeds has run, after the probe with \<^verbatim>\<open>i2cdetect\<close> and in
  this order: the four writes of \<^verbatim>\<open>set_all_pwm(0, 0)\<close> to the ALL\_LED registers, each
  with the value 0; the write MODE2 = OUTDRV (0x04); the write MODE1 = ALLCALL (0x01);
  a sleep of 5 ms; a read of MODE1; the write to MODE1 of the value read with the SLEEP
  bit cleared; a sleep of 5 ms. The object constructed holds the bus and the address
  given.
\<close>

theorem PCA9685_init_sequence:
  assumes "PCA9685_init t b a tr = (Inr self, tr')"
  shows "self = \<lparr>bus = b, addr = a\<rparr> \<and>
         (\<exists>mode1 rc.
           t (tr @ [I2cdetect b a,
                    I2cset b a 0xFA 0, I2cset b a 0xFB 0, I2cset b a 0xFC 0, I2cset b a 0xFD 0,
                    I2cset b a 0x01 0x04, I2cset b a 0x00 0x01, Sleep_ms 5])
             (I2cget b a 0x00) = Completed rc (Hex mode1) \<and>
           tr' = tr @ [I2cdetect b a,
                       I2cset b a ALL_LED_ON_L 0, I2cset b a ALL_LED_ON_H 0,
                       I2cset b a ALL_LED_OFF_L 0, I2cset b a ALL_LED_OFF_H 0,
                       I2cset b a MODE2 OUTDRV, I2cset b a MODE1 ALLCALL, Sleep_ms 5,
                       I2cget b a MODE1, I2cset b a MODE1 (mode1 AND NOT SLEEP), Sleep_ms 5]) \<and>
         ALL_LED_ON_L = 0xFA \<and> ALL_LED_ON_H = 0xFB \<and> ALL_LED_OFF_L = 0xFC \<and>
         ALL_LED_OFF_H = 0xFD \<and> MODE2 = 0x01 \<and> OUTDRV = 0x04 \<and> MODE1 = 0x00 \<and>
         ALLCALL = 0x01 \<and> SLEEP = 0x10"
  using PCA9685_init_returns [OF assms] by (simp add: register_defs bit_defs)

theorem PCA9685_init_sequence_witness:
  "PCA9685_init (quiet_chip 0x31) 0 0x40 [] =
     (Inr \<lparr>bus = 0, addr = 0x40\<rparr>,
      [I2cdetect 0 0x40,
       I2cset 0 0x40 0xFA 0, I2cset 0 0x40 0xFB 0, I2cset 0 0x40 0xFC 0, I2cset 0 0x40 0xFD 0,
       I2cset 0 0x40 0x01 0x04, I2cset 0 0x40 0x00 0x01, Sleep_ms 5,
       I2cget 0 0x40 0x00, I2cset 0 0x40 0x00 0x21, Sleep_ms 5]) \<and>
   (\<exists>mode1 rc.
      quiet_chip 0x31
        [I2cdetect 0 0x40,
         I2cset 0 0x40 0xFA 0, I2cset 0 0x40 0xFB 0, I2cset 0 0x40 0xFC 0, I2cset 0 0x40 0xFD 0,
         I2cset 0 0x40 0x01 0x04, I2cset 0 0x40 0x00 0x01, Sleep_ms 5]
        (I2cget 0 0x40 0x00) = Completed rc (Hex mode1) \<and>
      mode1 AND NOT SLEEP = 0x21)"
  using PCA9685_init_sequence [OF init_quiet] init_quiet
  by (simp add: register_defs bit_defs quiet_chip_def)

subsection \<open>C7: splitting a tick count into two bytes\<close>

text \<open>
  C7. For every integer \<open>ticks\<close> from 0 to 4095, the low byte \<^verbatim>\<open>ticks & 0xFF\<close> and the
  high byte \<^verbatim>\<open>ticks >> 8\<close> that \<^verbatim>\<open>set_pwm\<close> and \<^verbatim>\<open>set_all_pwm\<close> write give \<open>ticks\<close>
  back: \<^verbatim>\<open>(high << 8) | low == ticks\<close>.
\<close>

theorem split_ticks_roundtrip:
  assumes "0 \<le> ticks" and "ticks \<le> 4095"
  shows "push_bit 8 (high_byte ticks) OR low_byte ticks = ticks"
proof -
  have "(0xFF::int) = mask 8"
    by (simp add: mask_eq_exp_minus_1)
  then have "low_byte ticks = take_bit 8 ticks"
    by (simp add: low_byte_def take_bit_eq_mask)
  then show ?thesis
    unfolding high_byte_def by (auto intro!: bit_eqI simp add: bit_simps)
qed

theorem split_ticks_roundtrip_witness:
  "(0::int) \<le> 600 \<and> (600::int) \<le> 4095 \<and> low_byte 600 = 88 \<and> high_byte 600 = 2 \<and>
   push_bit 8 (high_byte 600) OR low_byte 600 = 600"
  using split_ticks_roundtrip [of 600] by (simp add: low_byte_def high_byte_def)

subsection \<open>C8: \<^verbatim>\<open>set_all_pwm(0, 150)\<close>\<close>

text \<open>
  C8. A call \<^verbatim>\<open>set_all_pwm(0, 150)\<close> that returns has run exactly four \<^verbatim>\<open>i2cset\<close>
  commands and nothing else: the writes to ALL\_LED\_ON\_L (0xFA), ALL\_LED\_ON\_H (0xFB),
  ALL\_LED\_OFF\_L (0xFC) and ALL\_LED\_OFF\_H (0xFD), in this order, of the values 0, 0,
  150 and 0.
\<close>

theorem set_all_pwm_0_150:
  assumes "set_all_pwm t self 0 150 tr = (Inr u, tr')"
  shows "tr' = tr @ [I2cset (bus self) (addr self) ALL_LED_ON_L 0,
                     I2cset (bus self) (addr self) ALL_LED_ON_H 0,
                     I2cset (bus self) (addr self) ALL_LED_OFF_L 150,
                     I2cset (bus self) (addr self) ALL_LED_OFF_H 0] \<and>
         ALL_LED_ON_L = 0xFA \<and> ALL_LED_ON_H = 0xFB \<and>
         ALL_LED_OFF_L = 0xFC \<and> ALL_LED_OFF_H = 0xFD"
  using set_all_pwm_returns [OF assms] by (simp add: register_defs)

theorem set_all_pwm_0_150_witness:
  "set_all_pwm (quiet_chip 0x21) \<lparr>bus = 0, addr = 0x40\<rparr> 0 150 [] =
     (Inr (), [I2cset 0 0x40 0xFA 0, I2cset 0 0x40 0xFB 0,
               I2cset 0 0x40 0xFC 150, I2cset 0 0x40 0xFD 0])"
proof -
  obtain u tr' where r:
    "set_all_pwm (quiet_chip 0x21) \<lparr>bus = 0, addr = 0x40\<rparr> 0 150 [] = (Inr u, tr')"
    by (simp add: set_all_pwm_def io_eqs fixture_defs)
  from set_all_pwm_0_150 [OF r] r show ?thesis
    by (simp add: register_defs)
qed

subsection \<open>C9: the prescale value falls as the frequency rises\<close>

text \<open>
  C9. For all frequencies \<open>f1 \<le> f2\<close> between 24 and 1526 Hz, the prescale value
  computed for \<open>f1\<close> is at least the one computed for \<open>f2\<close>.
\<close>

theorem prescale_antimono:
  assumes "24 \<le> f1" and "f1 \<le> f2" and "f2 \<le> 1526"
  shows "\<exists>p1 p2. prescale f1 = Inr p1 \<and> prescale f2 = Inr p2 \<and> p2 \<le> p1"
proof -
  have "25000000 / 4096 / (of_int f2 :: rat) \<le> 25000000 / 4096 / of_int f1"
    using assms by (simp add: frac_le)
  then have "\<lfloor>25000000 / 4096 / (of_int f2 :: rat) - 1 + 1 / 2\<rfloor>
           \<le> \<lfloor>25000000 / 4096 / (of_int f1 :: rat) - 1 + 1 / 2\<rfloor>"
    by (intro floor_mono) simp
  then show ?thesis
    using assms by (simp add: prescale_pos)
qed

theorem prescale_antimono_witness:
  "(24::int) \<le> 24 \<and> (24::int) \<le> 1526 \<and> (1526::int) \<le> 1526 \<and>
   prescale 24 = Inr 253 \<and> prescale 1526 = Inr 3 \<and>
   (\<exists>p1 p2. prescale 24 = Inr p1 \<and> prescale 1526 = Inr p2 \<and> p2 \<le> p1)"
  using prescale_antimono [of 24 1526] by (simp add: prescale_pos floor_unique)

subsection \<open>C10: waking the chip changes the SLEEP bit only\<close>

text \<open>
  C10. In a construction that succeeds, the last command run is the write to MODE1 of
  \<^verbatim>\<open>m & ~0x10\<close>, where \<open>m\<close> is the value that the read of MODE1 just before it gave:
  bit 4 (SLEEP) of the value written is clear and every other bit is the bit of \<open>m\<close>.
\<close>

theorem wake_up_keeps_other_bits:
  assumes "PCA9685_init t b a tr = (Inr self, tr')"
  shows "\<exists>m rc w before.
           tr' = before @ [I2cget b a MODE1, I2cset b a MODE1 w, Sleep_ms 5] \<and>
           t before (I2cget b a MODE1) = Completed rc (Hex m) \<and>
           w = m AND NOT 0x10 \<and>
           \<not> bit w 4 \<and> (\<forall>n. n \<noteq> 4 \<longrightarrow> bit w n = bit m n)"
proof -
  from PCA9685_init_returns [OF assms] obtain mode1 rc where
    r: "t (tr @ [I2cdetect b a,
                 I2cset b a ALL_LED_ON_L 0, I2cset b a ALL_LED_ON_H 0,
                 I2cset b a ALL_LED_OFF_L 0, I2cset b a ALL_LED_OFF_H 0,
                 I2cset b a MODE2 OUTDRV, I2cset b a MODE1 ALLCALL, Sleep_ms 5])
          (I2cget b a MODE1) = Completed rc (Hex mode1)"
    and tr': "tr' = tr @ [I2cdetect b a,
                       I2cset b a ALL_LED_ON_L 0, I2cset b a ALL_LED_ON_H 0,
                       I2cset b a ALL_LED_OFF_L 0, I2cset b a ALL_LED_OFF_H 0,
                       I2cset b a MODE2 OUTDRV, I2cset b a MODE1 ALLCALL, Sleep_ms 5,
                       I2cget b a MODE1, I2cset b a MODE1 (mode1 AND NOT SLEEP), Sleep_ms 5]"
    by blast
  let ?before = "tr @ [I2cdetect b a,
                 I2cset b a ALL_LED_ON_L 0, I2cset b a ALL_LED_ON_H 0,
                 I2cset b a ALL_LED_OFF_L 0, I2cset b a ALL_LED_OFF_H 0,
                 I2cset b a MODE2 OUTDRV, I2cset b a MODE1 ALLCALL, Sleep_ms 5]"
  have "tr' = ?before @ [I2cget b a MODE1, I2cset b a MODE1 (mode1 AND NOT SLEEP), Sleep_ms 5]"
    using tr' by simp
  moreover have "mode1 AND NOT SLEEP = mode1 AND NOT 0x10"
    by (simp add: SLEEP_def)
  moreover have "\<not> bit (mode1 AND NOT SLEEP) 4"
    and "\<forall>n. n \<noteq> 4 \<longrightarrow> bit (mode1 AND NOT SLEEP) n = bit mode1 n"
    by (simp_all add: wake_bits)
  ultimately show ?thesis using r by blast
qed

theorem wake_up_keeps_other_bits_witness:
  "PCA9685_init (quiet_chip 0xB1) 0 0x40 [] =
     (Inr \<lparr>bus = 0, addr = 0x40\<rparr>,
      [I2cdetect 0 0x40,
       I2cset 0 0x40 0xFA 0, I2cset 0 0x40 0xFB 0, I2cset 0 0x40 0xFC 0, I2cset 0 0x40 0xFD 0,
       I2cset 0 0x40 0x01 0x04, I2cset 0 0x40 0x00 0x01, Sleep_ms 5,
       I2cget 0 0x40 0x00, I2cset 0 0x40 0x00 0xA1, Sleep_ms 5]) \<and>
   (\<exists>m rc w before.
      [I2cdetect 0 0x40,
       I2cset 0 0x40 0xFA 0, I2cset 0 0x40 0xFB 0, I2cset 0 0x40 0xFC 0, I2cset 0 0x40 0xFD 0,
       I2cset 0 0x40 0x01 0x04, I2cset 0 0x40 0x00 0x01, Sleep_ms 5,
       I2cget 0 0x40 0x00, I2cset 0 0x40 0x00 0xA1, Sleep_ms 5] =
        before @ [I2cget 0 0x40 MODE1, I2cset 0 0x40 MODE1 w, Sleep_ms 5] \<and>
      quiet_chip 0xB1 before (I2cget 0 0x40 MODE1) = Completed rc (Hex m) \<and>
      w = m AND NOT 0x10 \<and> \<not> bit w 4 \<and> (\<forall>n. n \<noteq> 4 \<longrightarrow> bit w n = bit m n))"
proof -
  have r: "PCA9685_init (quiet_chip 0xB1) 0 0x40 [] =
     (Inr \<lparr>bus = 0, addr = 0x40\<rparr>,
      [I2cdetect 0 0x40,
       I2cset 0 0x40 0xFA 0, I2cset 0 0x40 0xFB 0, I2cset 0 0x40 0xFC 0, I2cset 0 0x40 0xFD 0,
       I2cset 0 0x40 0x01 0x04, I2cset 0 0x40 0x00 0x01, Sleep_ms 5,
       I2cget 0 0x40 0x00, I2cset 0 0x40 0x00 0xA1, Sleep_ms 5])"
    by (simp add: PCA9685_init_def MCP2221A_init_def set_all_pwm_def io_eqs Let_def
        low_byte_def high_byte_def fixture_defs register_defs bit_defs)
  from wake_up_keeps_other_bits [OF r] r show ?thesis by blast
qed

subsection \<open>C3: \<^verbatim>\<open>set_pwm\<close> with arguments out of range\<close>

text \<open>
  C3 (as amended). \<^verbatim>\<open>set_pwm(channel, on, off)\<close> checks none of its arguments. For
  all integers \<open>channel\<close>, \<open>on\<close> and \<open>off\<close>, in range or not, it starts by running the
  write of \<^verbatim>\<open>on & 0xFF\<close> to the register \<^verbatim>\<open>LED0_ON_L + 4 * channel\<close>; when it returns
  it has run its four writes; and when it raises, the exception is the one that its
  last \<^verbatim>\<open>i2cset\<close> command raised (\<^verbatim>\<open>OSError\<close> or \<^verbatim>\<open>UnicodeDecodeError\<close>).
\<close>

theorem set_pwm_checks_nothing:
  assumes "set_pwm t self channel on off tr = (r, tr')"
  shows "(\<exists>rest. tr' = tr @ I2cset (bus self) (addr self) (LED0_ON_L + 4 * channel) (on AND 0xFF) # rest) \<and>
         (r = Inr () \<longrightarrow>
            tr' = tr @ [I2cset (bus self) (addr self) (LED0_ON_L + 4 * channel) (on AND 0xFF),
                        I2cset (bus self) (addr self) (LED0_ON_H + 4 * channel) (drop_bit 8 on),
                        I2cset (bus self) (addr self) (LED0_OFF_L + 4 * channel) (off AND 0xFF),
                        I2cset (bus self) (addr self) (LED0_OFF_H + 4 * channel) (drop_bit 8 off)]) \<and>
         (\<forall>e. r = Inl e \<longrightarrow>
            raised t (butlast tr') (last tr') = Some e \<and> (e = OSError \<or> e = UnicodeDecodeError))"
proof (intro conjI impI allI)
  show "\<exists>rest. tr' = tr @ I2cset (bus self) (addr self) (LED0_ON_L + 4 * channel) (on AND 0xFF) # rest"
    using set_pwm_first [of t self channel on off tr] assms by simp
next
  assume "r = Inr ()"
  with assms show "tr' = tr @ [I2cset (bus self) (addr self) (LED0_ON_L + 4 * channel) (on AND 0xFF),
                        I2cset (bus self) (addr self) (LED0_ON_H + 4 * channel) (drop_bit 8 on),
                        I2cset (bus self) (addr self) (LED0_OFF_L + 4 * channel) (off AND 0xFF),
                        I2cset (bus self) (addr self) (LED0_OFF_H + 4 * channel) (drop_bit 8 off)]"
    by (simp add: set_pwm_returns)
next
  fix e assume "r = Inl e"
  with assms have *: "set_pwm t self channel on off tr = (Inl e, tr')" by simp
  then show "raised t (butlast tr') (last tr') = Some e" by (rule set_pwm_Inl)
  from * show "e = OSError \<or> e = UnicodeDecodeError"
    by (auto simp add: set_pwm_def io_eqs write_result_def decode_def
        split: sum.splits reply.splits stdout.splits)
qed

theorem set_pwm_checks_nothing_witness:
  "set_pwm (quiet_chip 0x21) \<lparr>bus = 0, addr = 0x40\<rparr> 16 5000 (- 1) [] =
     (Inr (),
      [I2cset 0 0x40 70 136, I2cset 0 0x40 71 19, I2cset 0 0x40 72 255, I2cset 0 0x40 73 (- 1)]) \<and>
   LED0_ON_L + 4 * 16 = 70 \<and> (5000::int) AND 0xFF = 136"
  using set_pwm_checks_nothing [OF set_pwm_out_of_range] set_pwm_out_of_range
  by (simp add: register_defs)

text \<open>
  Channel 16 with an \<open>on\<close> count of 5000 and an \<open>off\<close> count of \<open>- 1\<close>: the call returns
  and has run four \<^verbatim>\<open>i2cset\<close> commands.
\<close>

theorem set_pwm_counterexample:
  "set_pwm (quiet_chip 0x21) \<lparr>bus = 0, addr = 0x40\<rparr> 16 5000 (- 1) [] =
     (Inr (),
      [I2cset 0 0x40 70 136, I2cset 0 0x40 71 19, I2cset 0 0x40 72 255, I2cset 0 0x40 73 (- 1)])"
  by (simp add: set_pwm_def io_eqs low_byte_def high_byte_def fixture_defs register_defs)

subsection \<open>C5: PRESCALE is written while the chip sleeps\<close>

text \<open>
  C5 (as amended). Take the commands run by a construction that succeeds and then by any
  calls of \<^verbatim>\<open>set_pwm_freq\<close>, \<^verbatim>\<open>set_all_pwm\<close>, \<^verbatim>\<open>software_reset\<close>, \<^verbatim>\<open>read_reg\<close> and of
  \<^verbatim>\<open>set_pwm\<close> with a channel other than 62, so with any channel from 0 to 15. Every
  write to PRESCALE among them comes when the latest write to MODE1 before it set the
  SLEEP bit.
\<close>

theorem prescale_written_asleep:
  assumes "PCA9685_init t b a [] = (Inr self, tr)"
    and "\<forall>c \<in> set cs. not_channel_62 c"
  shows "prescale_asleep False (calls t self cs tr)"
proof -
  have "prescale_asleep False (snd (PCA9685_init t b a []))"
    by (rule PCA9685_init_asleep) simp
  then have "prescale_asleep False tr"
    using assms(1) by simp
  with assms(2) show ?thesis
    by (rule calls_asleep)
qed

theorem prescale_written_asleep_witness:
  "PCA9685_init (quiet_chip 0x31) 0 0x40 [] =
     (Inr \<lparr>bus = 0, addr = 0x40\<rparr>,
      [I2cdetect 0 0x40,
       I2cset 0 0x40 0xFA 0, I2cset 0 0x40 0xFB 0, I2cset 0 0x40 0xFC 0, I2cset 0 0x40 0xFD 0,
       I2cset 0 0x40 0x01 0x04, I2cset 0 0x40 0x00 0x01, Sleep_ms 5,
       I2cget 0 0x40 0x00, I2cset 0 0x40 0x00 0x21, Sleep_ms 5]) \<and>
   list_all not_channel_62
     [Set_pwm_freq 60, Set_pwm 15 0 150, Set_all_pwm 0 600, Read_reg 0xFE, Software_reset] \<and>
   prescale_asleep False
     (calls (quiet_chip 0x31) \<lparr>bus = 0, addr = 0x40\<rparr>
        [Set_pwm_freq 60, Set_pwm 15 0 150, Set_all_pwm 0 600, Read_reg 0xFE, Software_reset]
        [I2cdetect 0 0x40,
         I2cset 0 0x40 0xFA 0, I2cset 0 0x40 0xFB 0, I2cset 0 0x40 0xFC 0, I2cset 0 0x40 0xFD 0,
         I2cset 0 0x40 0x01 0x04, I2cset 0 0x40 0x00 0x01, Sleep_ms 5,
         I2cget 0 0x40 0x00, I2cset 0 0x40 0x00 0x21, Sleep_ms 5])"
proof -
  have c: "\<forall>c \<in> set [Set_pwm_freq 60, Set_pwm 15 0 150, Set_all_pwm 0 600, Read_reg 0xFE,
                Software_reset]. not_channel_62 c"
    by simp
  from prescale_written_asleep [OF init_quiet c] init_quiet show ?thesis
    by simp
qed

text \<open>
  After a construction, \<^verbatim>\<open>set_pwm(62, 1, 0)\<close> writes 1 to the register
  \<^verbatim>\<open>LED0_ON_L + 4 * 62\<close>, which is PRESCALE (0xFE), and the latest write to MODE1 is the
  one that woke the chip.
\<close>

theorem prescale_written_asleep_counterexample:
  "\<not> prescale_asleep False
       (calls (quiet_chip 0x31) \<lparr>bus = 0, addr = 0x40\<rparr> [Set_pwm 62 1 0]
          (snd (PCA9685_init (quiet_chip 0x31) 0 0x40 [])))"
  by (simp add: init_quiet do_call_def set_pwm_def io_eqs low_byte_def high_byte_def
      fixture_defs register_defs bit_defs)

subsection \<open>C4: failures of the transport during construction\<close>

text \<open>
  C4 (as amended). A construction raises in two cases only. The bus number has more than
  4300 decimal digits: then \<^verbatim>\<open>"%d" % self.bus\<close> raises \<^verbatim>\<open>ValueError\<close> before any command
  is run. Or one of its commands raises: the tool cannot be started (\<^verbatim>\<open>OSError\<close>), its
  output is not UTF-8 (\<^verbatim>\<open>UnicodeDecodeError\<close>), or the output of the read of MODE1 is
  no hexadecimal number (\<^verbatim>\<open>ValueError\<close>). The construction stops there, raises that
  exception unchanged, and gives no object. A construction that returns an object has
  run commands none of which raised; the exit status of a command plays no part in this.
\<close>

theorem PCA9685_init_raises:
  assumes "PCA9685_init t b a [] = (r, tr)"
  shows "(\<forall>self. r = Inr self \<longrightarrow>
            self = \<lparr>bus = b, addr = a\<rparr> \<and> \<bar>b\<bar> < 10 ^ int_max_str_digits \<and> no_raise t [] tr) \<and>
         (\<forall>e. r = Inl e \<longrightarrow>
            (10 ^ int_max_str_digits \<le> \<bar>b\<bar> \<and> e = ValueError \<and> tr = [] \<or>
             \<bar>b\<bar> < 10 ^ int_max_str_digits \<and> tr \<noteq> [] \<and> no_raise t [] (butlast tr) \<and>
             raised t (butlast tr) (last tr) = Some e) \<and>
            (e = OSError \<or> e = UnicodeDecodeError \<or> e = ValueError)) \<and>
         int_max_str_digits = 4300"
    (is "?returns \<and> ?raises \<and> ?digits")
proof -
  have digits: ?digits
    by (simp only: int_max_str_digits_def)
  have "?returns \<and> ?raises"
  proof (cases "format_d b")
    case (Inl e')
    then have big: "10 ^ int_max_str_digits \<le> \<bar>b\<bar>" and e': "e' = ValueError"
      by (simp_all add: format_d_Inl)
    from PCA9685_init_format [OF Inl, of t a "[]"] assms
    have "r = Inl ValueError" and "tr = []"
      by (simp_all add: e')
    with big show ?thesis
      by simp
  next
    case (Inr u)
    then have ok: "format_d b = Inr ()"
      by simp
    then have small: "\<bar>b\<bar> < 10 ^ int_max_str_digits"
      by (simp add: format_d_Inr)
    have "self = \<lparr>bus = b, addr = a\<rparr> \<and> no_raise t [] tr" if "r = Inr self" for self
    proof
      from that assms have "PCA9685_init t b a [] = (Inr self, tr)"
        by simp
      from PCA9685_init_returns [OF this] show "self = \<lparr>bus = b, addr = a\<rparr>"
        by simp
      from PCA9685_init_stops [OF ok assms] that show "no_raise t [] tr"
        by simp
    qed
    moreover have "tr \<noteq> [] \<and> no_raise t [] (butlast tr) \<and>
        raised t (butlast tr) (last tr) = Some e \<and>
        (e = OSError \<or> e = UnicodeDecodeError \<or> e = ValueError)" if "r = Inl e" for e
    proof -
      from PCA9685_init_stops [OF ok assms] that
      have *: "tr \<noteq> [] \<and> no_raise t [] (butlast tr) \<and> raised t (butlast tr) (last tr) = Some e"
        by simp
      then have "e = OSError \<or> e = UnicodeDecodeError \<or> e = ValueError"
        by (blast dest: raised_cases)
      with * show ?thesis
        by simp
    qed
    ultimately show ?thesis
      using small by blast
  qed
  then show ?thesis
    using digits by (intro conjI) (erule conjunct1, erule conjunct2, assumption)
qed

theorem PCA9685_init_raises_witness:
  "PCA9685_init no_i2cset 0 0x40 [] = (Inl OSError, [I2cdetect 0 0x40, I2cset 0 0x40 0xFA 0]) \<and>
   no_raise no_i2cset [] [I2cdetect 0 0x40] \<and>
   raised no_i2cset [I2cdetect 0 0x40] (I2cset 0 0x40 0xFA 0) = Some OSError \<and>
   PCA9685_init (quiet_chip 0x31) (10 ^ int_max_str_digits) 0x40 [] = (Inl ValueError, [])"
proof -
  have big: "PCA9685_init (quiet_chip 0x31) (10 ^ int_max_str_digits) 0x40 [] = (Inl ValueError, [])"
    by (rule PCA9685_init_format) (simp add: format_d_def)
  from PCA9685_init_raises [OF init_no_i2cset] PCA9685_init_raises [OF big] init_no_i2cset big
  show ?thesis by simp
qed

text \<open>
  The write to MODE2 fails: \<^verbatim>\<open>i2cset\<close> exits with status 1. The construction goes on
  and returns an object.
\<close>

theorem PCA9685_init_counterexample:
  "mode2_write_fails 0x31
     [I2cdetect 0 0x40,
      I2cset 0 0x40 0xFA 0, I2cset 0 0x40 0xFB 0, I2cset 0 0x40 0xFC 0, I2cset 0 0x40 0xFD 0]
     (I2cset 0 0x40 MODE2 OUTDRV) = Completed 1 Not_hex \<and>
   PCA9685_init (mode2_write_fails 0x31) 0 0x40 [] =
     (Inr \<lparr>bus = 0, addr = 0x40\<rparr>,
      [I2cdetect 0 0x40,
       I2cset 0 0x40 0xFA 0, I2cset 0 0x40 0xFB 0, I2cset 0 0x40 0xFC 0, I2cset 0 0x40 0xFD 0,
       I2cset 0 0x40 0x01 0x04, I2cset 0 0x40 0x00 0x01, Sleep_ms 5,
       I2cget 0 0x40 0x00, I2cset 0 0x40 0x00 0x21, Sleep_ms 5])"
  by (simp add: init_mode2_fails) (simp add: mode2_write_fails_def)

end
